theory Spec2Isabelle
  imports Main "HOL-Library.Word"
begin

section \<open>Machine types\<close>

text \<open>
  The C++ type \<^verbatim>\<open>int\<close> is a 32-bit two's complement integer and \<^verbatim>\<open>char\<close> is one byte.
  Addition on \<^verbatim>\<open>int\<close> is the addition of the machine, which wraps around modulo \<open>2 ^ 32\<close>
  (ISO C++ leaves the overflowing case undefined; the compiled code adds registers).
  A value is read as a signed number with \<open>sint\<close> and compared with \<open>word_sle\<close>.
\<close>

type_synonym cint = "32 word"
type_synonym cchar = "8 word"

definition INT_MAX :: cint where
  "INT_MAX = 2147483647"

section \<open>The class of \<^verbatim>\<open>dog.cc\<close>\<close>

text \<open>
  \<^verbatim>\<open>class Dog { int distance_; }\<close> with its constructor \<^verbatim>\<open>Dog(): distance_(0) {}\<close>,
  \<^verbatim>\<open>void run(int distance) { distance_ += distance; }\<close> and
  \<^verbatim>\<open>int distance() const { return distance_; }\<close>.
\<close>

text \<open>The field \<^verbatim>\<open>distance_\<close> is named \<open>distance_member\<close>: an identifier cannot end in an underscore here.\<close>

record Dog =
  distance_member :: cint

definition Dog_ctor :: Dog where
  "Dog_ctor = \<lparr>distance_member = 0\<rparr>"

definition run :: "Dog \<Rightarrow> cint \<Rightarrow> Dog" where
  "run this amount = this\<lparr>distance_member := distance_member this + amount\<rparr>"

definition distance :: "Dog \<Rightarrow> cint" where
  "distance this = distance_member this"

section \<open>The functions that \<^verbatim>\<open>dog.cc\<close> exports to C\<close>

text \<open>
  A \<^verbatim>\<open>void *\<close> is the null pointer or an address. The store maps the addresses that hold a
  \<^verbatim>\<open>Dog\<close> object to that object; every other address (never allocated, already deleted,
  or holding something that is not a \<^verbatim>\<open>Dog\<close>) is unmapped. \<^verbatim>\<open>reinterpret_cast\<close> does not
  change the pointer. Reading or writing through a pointer that does not point to a \<^verbatim>\<open>Dog\<close>
  has no defined behaviour in C++; the model makes it the fault \<open>Undefined_behaviour\<close>.
\<close>

datatype ptr = nullptr | Ptr nat

type_synonym heap = "nat \<rightharpoonup> Dog"

datatype fault = Undefined_behaviour

text \<open>
  \<^verbatim>\<open>void *dog_ctor() { return new Dog(); }\<close>. The address is chosen by \<^verbatim>\<open>operator new\<close>, which is
  not part of the sources: it is the parameter \<open>a\<close>. Storage is assumed not to run out.
\<close>

definition dog_ctor :: "heap \<Rightarrow> nat \<Rightarrow> ptr \<times> heap" where
  "dog_ctor h a = (Ptr a, h(a \<mapsto> Dog_ctor))"

text \<open>
  \<^verbatim>\<open>void dog_dctor(void *dog) { auto *ptr = reinterpret_cast<Dog*>(dog); delete ptr; }\<close>.
  In C++ \<^verbatim>\<open>delete\<close> of a null pointer does nothing; \<^verbatim>\<open>delete\<close> of any other pointer that
  does not come from \<^verbatim>\<open>new\<close>, or was deleted before, is undefined.
\<close>

fun dog_dctor :: "heap \<Rightarrow> ptr \<Rightarrow> fault + heap" where
  "dog_dctor h nullptr = Inr h"
| "dog_dctor h (Ptr a) =
     (case h a of
        None \<Rightarrow> Inl Undefined_behaviour
      | Some d \<Rightarrow> Inr (h(a := None)))"

text \<open>
  \<^verbatim>\<open>void dog_run(void *dog, int distance) { auto *ptr = reinterpret_cast<Dog*>(dog);
  ptr->run(distance); }\<close>
\<close>

fun dog_run :: "heap \<Rightarrow> ptr \<Rightarrow> cint \<Rightarrow> fault + heap" where
  "dog_run h nullptr amount = Inl Undefined_behaviour"
| "dog_run h (Ptr a) amount =
     (case h a of
        None \<Rightarrow> Inl Undefined_behaviour
      | Some d \<Rightarrow> Inr (h(a \<mapsto> run d amount)))"

text \<open>
  \<^verbatim>\<open>int dog_distance(void *dog) { auto *ptr = reinterpret_cast<Dog*>(dog);
  return ptr->distance(); }\<close>. The result is the returned value and the store after the call.
\<close>

fun dog_distance :: "heap \<Rightarrow> ptr \<Rightarrow> fault + cint \<times> heap" where
  "dog_distance h nullptr = Inl Undefined_behaviour"
| "dog_distance h (Ptr a) =
     (case h a of
        None \<Rightarrow> Inl Undefined_behaviour
      | Some d \<Rightarrow> Inr (distance d, h))"

text \<open>A handle is live when it points to a \<^verbatim>\<open>Dog\<close> of the store.\<close>

fun live :: "heap \<Rightarrow> ptr \<Rightarrow> bool" where
  "live h nullptr = False"
| "live h (Ptr a) = (h a \<noteq> None)"

text \<open>A caller that applies \<^verbatim>\<open>dog_run\<close> to one handle with each amount of a list, in order.\<close>

fun dog_runs :: "heap \<Rightarrow> ptr \<Rightarrow> cint list \<Rightarrow> fault + heap" where
  "dog_runs h p [] = Inr h"
| "dog_runs h p (amount # amounts) =
     (case dog_run h p amount of
        Inl e \<Rightarrow> Inl e
      | Inr h' \<Rightarrow> dog_runs h' p amounts)"

text \<open>
  The scenario of the specification as one function: create a \<^verbatim>\<open>Dog\<close> at the address \<open>a\<close> the
  allocator returns, run it with each amount in order, then ask for its distance.
\<close>

definition query_after_runs :: "heap \<Rightarrow> nat \<Rightarrow> cint list \<Rightarrow> fault + cint" where
  "query_after_runs h a amounts =
     (case dog_ctor h a of
        (p, h0) \<Rightarrow>
          (case dog_runs h0 p amounts of
             Inl e \<Rightarrow> Inl e
           | Inr h1 \<Rightarrow>
               (case dog_distance h1 p of
                  Inl e \<Rightarrow> Inl e
                | Inr (v, h2) \<Rightarrow> Inr v)))"

text \<open>
  Any caller: a sequence of calls of the four exported functions, on any handles. \<open>Create a\<close>
  is a call of \<^verbatim>\<open>dog_ctor\<close> for which the allocator returns the address \<open>a\<close>. The sequence
  stops at the first fault.
\<close>

datatype call = Create nat | Destroy ptr | Increment ptr cint | Query ptr

fun call_step :: "heap \<Rightarrow> call \<Rightarrow> fault + heap" where
  "call_step h (Create a) = Inr (snd (dog_ctor h a))"
| "call_step h (Destroy p) = dog_dctor h p"
| "call_step h (Increment p amount) = dog_run h p amount"
| "call_step h (Query p) =
     (case dog_distance h p of
        Inl e \<Rightarrow> Inl e
      | Inr (v, h') \<Rightarrow> Inr h')"

fun calls :: "heap \<Rightarrow> call list \<Rightarrow> fault + heap" where
  "calls h [] = Inr h"
| "calls h (c # cs) =
     (case call_step h c of
        Inl e \<Rightarrow> Inl e
      | Inr h' \<Rightarrow> calls h' cs)"

text \<open>The amounts that a sequence of calls passes to \<^verbatim>\<open>dog_run\<close> on the handle \<open>p\<close>, in order.\<close>

fun increments_of :: "ptr \<Rightarrow> call list \<Rightarrow> cint list" where
  "increments_of p [] = []"
| "increments_of p (Increment q amount # cs) =
     (if q = p then amount # increments_of p cs else increments_of p cs)"
| "increments_of p (c # cs) = increments_of p cs"

text \<open>
  A call keeps the object at address \<open>a\<close> when it is not its destruction, and not a creation
  at \<open>a\<close> (an allocator never returns the address of an object that is still allocated).
\<close>

fun keeps :: "nat \<Rightarrow> call \<Rightarrow> bool" where
  "keeps a (Create b) = (b \<noteq> a)"
| "keeps a (Destroy p) = (p \<noteq> Ptr a)"
| "keeps a c = True"

text \<open>What a query of \<open>p\<close> returns after a sequence of calls that starts in the empty store.\<close>

definition query_after :: "call list \<Rightarrow> ptr \<Rightarrow> fault + cint" where
  "query_after cs p =
     (case calls Map.empty cs of
        Inl e \<Rightarrow> Inl e
      | Inr h \<Rightarrow>
          (case dog_distance h p of
             Inl e \<Rightarrow> Inl e
           | Inr (v, h') \<Rightarrow> Inr v))"

section \<open>The marshaller: \<^verbatim>\<open>send_udp_packet.cc\<close>\<close>

text \<open>
  Modelled from the spec: the open array handle of \<^verbatim>\<open>svdpi.h\<close>, a header that is not among
  the sources. The specification describes it as a descriptor exposing a lower bound index, an
  upper bound index, and a total element count, with read access by index. The fields are
  what \<^verbatim>\<open>svLeft(array, 1)\<close>, \<^verbatim>\<open>svRight(array, 1)\<close>, \<^verbatim>\<open>svSize(array, 1)\<close> and
  \<^verbatim>\<open>svGetArrElemPtr1(array, i)\<close> return. The last one returns a pointer to the element, or a
  null pointer when there is no element at \<open>i\<close>; the model gives the byte the pointer points
  to, or \<open>None\<close> for the null pointer.
\<close>

record svOpenArray =
  svLeft :: cint
  svRight :: cint
  svSize :: nat
  svGetArrElemPtr1 :: "cint \<Rightarrow> cchar option"

text \<open>
  The loop of \<^verbatim>\<open>read_data\<close>:
  \<^verbatim>\<open>for (auto i = low; i <= high; i++) {
    auto *value = reinterpret_cast<char*>(svGetArrElemPtr1(array, i));
    result.emplace_back(*value); }\<close>
  The counter is an \<^verbatim>\<open>int\<close>, compared as a signed number and incremented on the machine.
  Reading through a null pointer is a fault. The loop need not end, so it is a partial
  function: \<open>None\<close> is a loop that runs forever.
\<close>

partial_function (option) read_loop ::
  "svOpenArray \<Rightarrow> cint \<Rightarrow> cint \<Rightarrow> cchar list \<Rightarrow> (fault + cchar list) option" where
  "read_loop array i high result =
     (if word_sle i high then
        (case svGetArrElemPtr1 array i of
           None \<Rightarrow> Some (Inl Undefined_behaviour)
         | Some v \<Rightarrow> read_loop array (i + 1) high (result @ [v]))
      else Some (Inr result))"

declare read_loop.simps [code]

text \<open>
  \<^verbatim>\<open>std::vector<char> read_data(svOpenArrayHandle array)\<close>: the bounds are read, the vector
  starts empty and the loop fills it. \<^verbatim>\<open>result.reserve(size)\<close> sets the capacity of the
  vector and not its contents, and capacity is not modelled. Storage is assumed not to
  run out.
\<close>

definition read_data :: "svOpenArray \<Rightarrow> (fault + cchar list) option" where
  "read_data array = read_loop array (svLeft array) (svRight array) []"

text \<open>
  \<^verbatim>\<open>int send_udp_packet(const char *ip_address, uint16_t port, svOpenArrayHandle data)\<close>
  calls \<^verbatim>\<open>read_data\<close>, does nothing with the bytes and returns 0.
\<close>

definition send_udp_packet :: "string \<Rightarrow> 16 word \<Rightarrow> svOpenArray \<Rightarrow> (fault + cint) option" where
  "send_udp_packet ip_address port data =
     (case read_data data of
        None \<Rightarrow> None
      | Some (Inl e) \<Rightarrow> Some (Inl e)
      | Some (Inr byte_data) \<Rightarrow> Some (Inr 0))"

text \<open>
  The descriptor a simulator passes for an array declared with the bounds \<open>[low:high]\<close> that
  holds the bytes \<open>elems\<close>: an element at every index from \<open>low\<close> to \<open>high\<close> and nowhere else.
\<close>

definition array_of :: "cint \<Rightarrow> cint \<Rightarrow> cchar list \<Rightarrow> svOpenArray" where
  "array_of low high elems =
     \<lparr>svLeft = low, svRight = high, svSize = length elems,
      svGetArrElemPtr1 = (\<lambda>i. if word_sle low i \<and> word_sle i high
         then Some (elems ! nat (sint i - sint low)) else None)\<rparr>"

text \<open>A descriptor is readable when it has an element at every index between its bounds.\<close>

definition readable :: "svOpenArray \<Rightarrow> bool" where
  "readable array =
     (\<forall>i. word_sle (svLeft array) i \<and> word_sle i (svRight array) \<longrightarrow>
        svGetArrElemPtr1 array i \<noteq> None)"

section \<open>Properties of the counter\<close>

subsection \<open>Auxiliary facts\<close>

lemma dog_runs_live:
  "h a = Some d \<Longrightarrow>
   dog_runs h (Ptr a) ns = Inr (h(a \<mapsto> d\<lparr>distance_member := distance_member d + sum_list ns\<rparr>))"
proof (induction ns arbitrary: h d)
  case Nil
  then show ?case by (simp add: map_upd_triv)
next
  case (Cons n ns)
  from Cons.prems have "dog_runs h (Ptr a) (n # ns) = dog_runs (h(a \<mapsto> run d n)) (Ptr a) ns"
    by simp
  also have "\<dots> = Inr ((h(a \<mapsto> run d n))
      (a \<mapsto> (run d n)\<lparr>distance_member := distance_member (run d n) + sum_list ns\<rparr>))"
    by (rule Cons.IH) simp
  also have "(h(a \<mapsto> run d n))
      (a \<mapsto> (run d n)\<lparr>distance_member := distance_member (run d n) + sum_list ns\<rparr>) =
      h(a \<mapsto> d\<lparr>distance_member := distance_member d + sum_list (n # ns)\<rparr>)"
    by (simp add: run_def add.assoc)
  finally show ?case .
qed

lemma query_after_runs_eq: "query_after_runs h a ns = Inr (sum_list ns)"
  by (simp add: query_after_runs_def dog_ctor_def dog_runs_live [where d = Dog_ctor]
      Dog_ctor_def distance_def)

lemma sum_list_word_of_int: "(sum_list ns :: cint) = word_of_int (\<Sum>n\<leftarrow>ns. sint n)"
  by (induction ns) simp_all

lemma sint_sum_list: "sint (sum_list ns :: cint) = signed_take_bit 31 (\<Sum>n\<leftarrow>ns. sint n)"
  by (simp add: sum_list_word_of_int sint_sbintrunc')

lemma sint_add_no_wrap:
  "0 \<le> sint n \<Longrightarrow> sint x + sint n < 2 ^ 31 \<Longrightarrow> sint (x + n :: cint) = sint x + sint n"
  using sint_ge [of x]
  by (simp add: sint_word_ariths signed_take_bit_int_eq_self)

lemma sint_add_no_underflow:
  "sint n < 0 \<Longrightarrow> - (2 ^ 31) \<le> sint x + sint n \<Longrightarrow> sint (x + n :: cint) = sint x + sint n"
  using sint_lt [of x]
  by (simp add: sint_word_ariths signed_take_bit_int_eq_self)

lemma call_step_keeps:
  assumes "h a = Some d" and "keeps a c" and "call_step h c = Inr h1"
  shows "\<exists>d1. h1 a = Some d1 \<and>
     distance_member d1 = distance_member d + sum_list (increments_of (Ptr a) [c])"
proof (cases c)
  case (Create b)
  with assms show ?thesis by (auto simp: dog_ctor_def)
next
  case (Destroy p)
  with assms show ?thesis by (cases p) (auto split: option.splits)
next
  case (Increment p n)
  with assms show ?thesis by (cases p) (auto simp: run_def split: option.splits)
next
  case (Query p)
  with assms show ?thesis by (cases p) (auto split: option.splits)
qed

lemma calls_keep:
  "h a = Some d \<Longrightarrow> list_all (keeps a) cs \<Longrightarrow> calls h cs = Inr h' \<Longrightarrow>
   \<exists>d'. h' a = Some d' \<and>
     distance_member d' = distance_member d + sum_list (increments_of (Ptr a) cs)"
proof (induction cs arbitrary: h d)
  case Nil
  then show ?case by simp
next
  case (Cons c cs)
  from Cons.prems obtain h1 where step: "call_step h c = Inr h1" and rest: "calls h1 cs = Inr h'"
    by (auto split: sum.splits)
  from Cons.prems have "keeps a c" and all: "list_all (keeps a) cs" by simp_all
  from call_step_keeps [OF Cons.prems(1) this(1) step] obtain d1 where d1: "h1 a = Some d1"
    "distance_member d1 = distance_member d + sum_list (increments_of (Ptr a) [c])" by blast
  from Cons.IH [OF d1(1) all rest] obtain d' where
    "h' a = Some d'" "distance_member d' = distance_member d1 + sum_list (increments_of (Ptr a) cs)"
    by blast
  with d1(2) show ?case by (cases c) (auto simp: add.assoc)
qed

text \<open>After its destruction a handle is not live: a second destruction of it is undefined.\<close>

lemma destroyed_not_live:
  "h a = Some d \<Longrightarrow> dog_dctor h (Ptr a) = Inr (h(a := None)) \<and> \<not> live (h(a := None)) (Ptr a)"
  by simp

subsection \<open>The claims\<close>

text \<open>
  C1, as claimed, fails when the sum of the amounts is not an \<^verbatim>\<open>int\<close> value: after the
  increments 2147483647 and 1 on a fresh handle, the query returns -2147483648, and the sum
  of the amounts is 2147483648.
\<close>

theorem query_sum_overflows:
  "map_sum id sint (query_after_runs Map.empty 1 [2147483647, 1]) = Inr (- 2147483648)
   \<and> sum_list (map sint [2147483647, 1 :: cint]) = 2147483648"
  by (simp add: query_after_runs_def dog_ctor_def Dog_ctor_def run_def distance_def)

text \<open>
  C1, amended. For every finite sequence of amounts applied with \<^verbatim>\<open>dog_run\<close> to a handle
  freshly returned by \<^verbatim>\<open>dog_ctor\<close>, the following \<^verbatim>\<open>dog_distance\<close> returns their sum in the
  arithmetic of \<^verbatim>\<open>int\<close>: the sum of the amounts as integers, wrapped into the range of
  \<^verbatim>\<open>int\<close>, and so that integer itself whenever it is in the range. The witness is the
  scenario create, increment by 5, increment by -2, query, which returns 3.
\<close>

theorem query_returns_sum:
  "query_after_runs h a amounts = Inr (sum_list amounts)
   \<and> sint (sum_list amounts) = signed_take_bit 31 (\<Sum>n\<leftarrow>amounts. sint n)
   \<and> (- (2 ^ 31) \<le> (\<Sum>n\<leftarrow>amounts. sint n) \<and> (\<Sum>n\<leftarrow>amounts. sint n) < 2 ^ 31
      \<longrightarrow> sint (sum_list amounts) = (\<Sum>n\<leftarrow>amounts. sint n))"
  by (simp add: query_after_runs_eq sint_sum_list signed_take_bit_int_eq_self)

theorem query_returns_sum_witness:
  "query_after_runs Map.empty 1 [5, - 2] = Inr 3 \<and> sint (3 :: cint) = 5 + (- 2)"
  using query_returns_sum [of Map.empty 1 "[5, - 2]"] by simp

text \<open>
  C3. A query right after creation returns 0: \<^verbatim>\<open>dog_ctor\<close> constructs a \<^verbatim>\<open>Dog\<close> whose
  \<^verbatim>\<open>distance_\<close> is 0, whatever the store was and whatever address the allocator returns,
  and the query leaves the store as creation made it.
\<close>

theorem query_after_create:
  "dog_distance (snd (dog_ctor h a)) (fst (dog_ctor h a)) = Inr (0, snd (dog_ctor h a))
   \<and> snd (dog_ctor h a) a = Some \<lparr>distance_member = 0\<rparr>"
  by (simp add: dog_ctor_def Dog_ctor_def distance_def)

text \<open>
  C6, as claimed, fails: the accumulator decreases. After creation a query returns 0; after an
  increment by -1 it returns -1.
\<close>

theorem accumulator_decreases:
  "query_after [Create 1] (Ptr 1) = Inr 0
   \<and> query_after [Create 1, Increment (Ptr 1) (- 1)] (Ptr 1) = Inr (- 1)
   \<and> sint (- 1 :: cint) < sint (0 :: cint)"
  by (simp add: query_after_def dog_ctor_def Dog_ctor_def run_def distance_def)

text \<open>
  C6, amended. The accumulator is initialised to zero and changes only through explicit
  increments: after any sequence of the four operations, on any handles, that runs without a
  fault from the creation of a handle and does not destroy it, a query of the handle returns
  the sum (in \<^verbatim>\<open>int\<close>) of the amounts the sequence passed to \<^verbatim>\<open>dog_run\<close> on that handle. One
  increment by a non-negative amount that does not overflow does not decrease the accumulator;
  one increment by a negative amount that does not underflow decreases it.
\<close>

theorem accumulator_changes_only_by_increments:
  assumes "list_all (keeps a) cs" and "calls (snd (dog_ctor h a)) cs = Inr h'"
  shows "dog_distance h' (Ptr a) = Inr (sum_list (increments_of (Ptr a) cs), h')
     \<and> (0 \<le> sint amount \<and> sint (distance_member d) + sint amount < 2 ^ 31 \<longrightarrow>
          sint (distance_member d) \<le> sint (distance_member (run d amount)))
     \<and> (sint amount < 0 \<and> - (2 ^ 31) \<le> sint (distance_member d) + sint amount \<longrightarrow>
          sint (distance_member (run d amount)) < sint (distance_member d))"
proof -
  have "snd (dog_ctor h a) a = Some Dog_ctor"
    by (simp add: dog_ctor_def)
  from calls_keep [OF this assms] obtain d' where
    "h' a = Some d'" "distance_member d' = sum_list (increments_of (Ptr a) cs)"
    by (auto simp: Dog_ctor_def)
  then have "dog_distance h' (Ptr a) = Inr (sum_list (increments_of (Ptr a) cs), h')"
    by (simp add: distance_def)
  then show ?thesis
    by (simp add: run_def sint_add_no_wrap sint_add_no_underflow)
qed

theorem accumulator_changes_only_by_increments_witness:
  "list_all (keeps 1) [Increment (Ptr 1) 5, Create 2, Increment (Ptr 2) 9, Query (Ptr 2),
      Destroy (Ptr 2), Increment (Ptr 1) (- 2), Destroy nullptr]
   \<and> query_after [Create 1, Increment (Ptr 1) 5, Create 2, Increment (Ptr 2) 9, Query (Ptr 2),
      Destroy (Ptr 2), Increment (Ptr 1) (- 2), Destroy nullptr] (Ptr 1) = Inr 3
   \<and> sint (distance_member \<lparr>distance_member = 3\<rparr>)
        \<le> sint (distance_member (run \<lparr>distance_member = 3\<rparr> 4))
   \<and> sint (distance_member (run \<lparr>distance_member = 5\<rparr> (- 2)))
        < sint (distance_member \<lparr>distance_member = 5\<rparr>)"
proof -
  let ?cs = "[Increment (Ptr 1) 5, Create 2, Increment (Ptr 2) 9, Query (Ptr 2),
      Destroy (Ptr 2), Increment (Ptr 1) (- 2), Destroy nullptr]"
  have k: "list_all (keeps 1) ?cs" by simp
  have "\<exists>h'. calls (snd (dog_ctor Map.empty 1)) ?cs = Inr h'"
    by (simp add: dog_ctor_def)
  then obtain h' where c: "calls (snd (dog_ctor Map.empty 1)) ?cs = Inr h'" ..
  from accumulator_changes_only_by_increments [OF k c, of 4 "\<lparr>distance_member = 3\<rparr>"]
    accumulator_changes_only_by_increments [OF k c, of "- 2" "\<lparr>distance_member = 5\<rparr>"] c k
  show ?thesis by (simp add: query_after_def)
qed

text \<open>
  C7. A query has no side effect: on a live handle it returns the accumulator and leaves the
  store as it was. An increment on a live handle returns nothing but the store, in which only
  the object of the handle has changed, and of it only the accumulator, which has grown by
  the amount.
\<close>

theorem query_pure_increment_adds:
  assumes "live h p"
  shows "\<exists>a d. p = Ptr a \<and> h a = Some d
     \<and> dog_distance h p = Inr (distance_member d, h)
     \<and> dog_run h p amount = Inr (h(a \<mapsto> d\<lparr>distance_member := distance_member d + amount\<rparr>))"
  using assms by (cases p) (auto simp: distance_def run_def)

theorem query_pure_increment_adds_witness:
  "live [7 \<mapsto> \<lparr>distance_member = 40\<rparr>] (Ptr 7)
   \<and> dog_distance [7 \<mapsto> \<lparr>distance_member = 40\<rparr>] (Ptr 7) = Inr (40, [7 \<mapsto> \<lparr>distance_member = 40\<rparr>])
   \<and> dog_run [7 \<mapsto> \<lparr>distance_member = 40\<rparr>] (Ptr 7) 2 = Inr [7 \<mapsto> \<lparr>distance_member = 42\<rparr>]"
proof -
  have l: "live [7 \<mapsto> \<lparr>distance_member = 40\<rparr>] (Ptr 7)" by simp
  from query_pure_increment_adds [OF l, of 2] l show ?thesis by simp
qed

text \<open>
  C8, as claimed, fails for \<^verbatim>\<open>dog_dctor\<close>: the null pointer is not a live handle, and
  destroying it is defined; it does nothing.
\<close>

theorem destroy_null_is_defined:
  "\<not> live Map.empty nullptr \<and> dog_dctor Map.empty nullptr = Inr Map.empty"
  by simp

text \<open>
  C8, amended. No operation checks its handle. An increment or a query on a handle that is
  not live, and the destruction of a handle that is not live and not null, is undefined
  behaviour. The destruction of the null handle does nothing.
\<close>

theorem dead_handle_undefined:
  assumes "\<not> live h p"
  shows "dog_run h p amount = Inl Undefined_behaviour
     \<and> dog_distance h p = Inl Undefined_behaviour
     \<and> (if p = nullptr then dog_dctor h p = Inr h else dog_dctor h p = Inl Undefined_behaviour)"
  using assms by (cases p) auto

theorem dead_handle_undefined_witness:
  "\<not> live ([7 \<mapsto> \<lparr>distance_member = 40\<rparr>](7 := None)) (Ptr 7)
   \<and> dog_run ([7 \<mapsto> \<lparr>distance_member = 40\<rparr>](7 := None)) (Ptr 7) 1 = Inl Undefined_behaviour
   \<and> dog_distance ([7 \<mapsto> \<lparr>distance_member = 40\<rparr>](7 := None)) (Ptr 7) = Inl Undefined_behaviour
   \<and> dog_dctor ([7 \<mapsto> \<lparr>distance_member = 40\<rparr>](7 := None)) (Ptr 7) = Inl Undefined_behaviour"
proof -
  have l: "\<not> live ([7 \<mapsto> \<lparr>distance_member = 40\<rparr>](7 := None)) (Ptr 7)" by simp
  from dead_handle_undefined [OF l, of 1] l show ?thesis by simp
qed

text \<open>
  C9. On a live handle, two increments in either order give the same store, without a fault,
  and an increment by 0 leaves the store as it was.
\<close>

theorem increment_commutes_zero_neutral:
  assumes "live h p"
  shows "dog_runs h p [x, y] = dog_runs h p [y, x]
     \<and> (\<exists>h'. dog_runs h p [x, y] = Inr h')
     \<and> dog_run h p 0 = Inr h"
  using assms by (cases p) (auto simp: run_def add.commute add.left_commute map_upd_triv)

theorem increment_commutes_zero_neutral_witness:
  "live [7 \<mapsto> \<lparr>distance_member = 40\<rparr>] (Ptr 7)
   \<and> dog_runs [7 \<mapsto> \<lparr>distance_member = 40\<rparr>] (Ptr 7) [5, - 2]
       = dog_runs [7 \<mapsto> \<lparr>distance_member = 40\<rparr>] (Ptr 7) [- 2, 5]
   \<and> dog_run [7 \<mapsto> \<lparr>distance_member = 40\<rparr>] (Ptr 7) 0 = Inr [7 \<mapsto> \<lparr>distance_member = 40\<rparr>]"
proof -
  have l: "live [7 \<mapsto> \<lparr>distance_member = 40\<rparr>] (Ptr 7)" by simp
  from increment_commutes_zero_neutral [OF l, of 5 "- 2"] l show ?thesis by simp
qed

text \<open>
  C10. The accumulator is a 32-bit machine integer. One increment adds modulo \<open>2 ^ 32\<close>; read
  as signed numbers, the new accumulator is the sum wrapped into the range of \<^verbatim>\<open>int\<close>. So a
  query after a sequence of increments on a fresh handle returns the integer sum of the amounts
  wrapped into that range. The witness is a run where this is not the integer sum.
\<close>

theorem accumulator_wraps:
  "uint (distance_member (run d amount)) = (uint (distance_member d) + uint amount) mod 2 ^ 32
   \<and> sint (distance_member (run d amount))
       = signed_take_bit 31 (sint (distance_member d) + sint amount)
   \<and> map_sum id sint (query_after_runs h a amounts)
       = Inr (signed_take_bit 31 (\<Sum>n\<leftarrow>amounts. sint n))"
  by (simp add: run_def uint_word_ariths sint_word_ariths query_after_runs_eq sint_sum_list)

theorem accumulator_wraps_witness:
  "map_sum id sint (query_after_runs Map.empty 1 [2000000000, 2000000000]) = Inr (- 294967296)
   \<and> sum_list (map sint [2000000000, 2000000000 :: cint]) = 4000000000"
  using accumulator_wraps [of "\<lparr>distance_member = 0\<rparr>" 0 Map.empty 1 "[2000000000, 2000000000]"]
  by simp

section \<open>Properties of the marshaller\<close>

subsection \<open>Auxiliary facts\<close>

text \<open>
  When the upper bound is not \<open>INT_MAX\<close> and the descriptor is readable, the loop ends and the
  buffer holds the elements from the lower to the upper bound, in that order.
\<close>

lemma sint_succ: "sint (i::cint) < 2147483647 \<Longrightarrow> sint (i + 1) = sint i + 1"
  using sint_ge [of i]
  by (simp add: sint_word_ariths signed_take_bit_int_eq_self)

lemma sint_below_max: "(high::cint) \<noteq> INT_MAX \<Longrightarrow> sint high < 2147483647"
proof -
  assume ne: "high \<noteq> INT_MAX"
  have "sint high \<noteq> sint INT_MAX"
    using ne signed_word_eqI by blast
  moreover have "sint high < 2147483648" using sint_lt [of high] by simp
  ultimately show ?thesis by (simp add: INT_MAX_def)
qed

lemma read_loop_copies:
  assumes "high \<noteq> INT_MAX"
    and "\<forall>j. word_sle i j \<and> word_sle j high \<longrightarrow> svGetArrElemPtr1 array j \<noteq> None"
    and "n = nat (sint high - sint i + 1)"
  shows "read_loop array i high acc =
     Some (Inr (acc @ map (\<lambda>k. the (svGetArrElemPtr1 array (i + of_nat k))) [0..<n]))"
  using assms(2,3)
proof (induction n arbitrary: i acc)
  case 0
  then have "\<not> word_sle i high" by (simp add: word_sle_eq)
  then show ?case by (simp add: read_loop.simps)
next
  case (Suc n)
  from Suc.prems(2) have le: "sint i \<le> sint high" by linarith
  then have sle: "word_sle i high" by (simp add: word_sle_eq)
  from le sint_below_max [OF assms(1)] have "sint i < 2147483647" by simp
  then have succ: "sint (i + 1) = sint i + 1" by (rule sint_succ)
  from Suc.prems(1) sle obtain v where v: "svGetArrElemPtr1 array i = Some v"
    by (auto simp: word_sle_eq)
  have rd: "\<forall>j. word_sle (i + 1) j \<and> word_sle j high \<longrightarrow> svGetArrElemPtr1 array j \<noteq> None"
    using Suc.prems(1) succ by (simp add: word_sle_eq)
  have n: "n = nat (sint high - sint (i + 1) + 1)"
    using Suc.prems(2) succ by simp
  have "read_loop array i high acc = read_loop array (i + 1) high (acc @ [v])"
    using sle v by (subst read_loop.simps) simp
  also have "\<dots> = Some (Inr ((acc @ [v]) @
      map (\<lambda>k. the (svGetArrElemPtr1 array (i + 1 + of_nat k))) [0..<n]))"
    by (rule Suc.IH [OF rd n])
  also have "(acc @ [v]) @ map (\<lambda>k. the (svGetArrElemPtr1 array (i + 1 + of_nat k))) [0..<n] =
      acc @ map (\<lambda>k. the (svGetArrElemPtr1 array (i + of_nat k))) [0..<Suc n]"
    using v by (simp add: upt_conv_Cons map_Suc_upt [symmetric] ac_simps del: upt_Suc)
  finally show ?case .
qed

lemma read_loop_empty: "word_sless high i \<Longrightarrow> read_loop array i high acc = Some (Inr acc)"
  by (subst read_loop.simps) (simp add: word_sle_eq word_sless_alt)

lemma index_offset:
  "sint low \<le> sint (i :: cint) \<Longrightarrow> low + of_nat (nat (sint i - sint low)) = i"
  by simp

lemma read_data_map:
  assumes "svRight array \<noteq> INT_MAX" and "readable array"
  shows "read_data array = Some (Inr (map (\<lambda>k. the (svGetArrElemPtr1 array (svLeft array + of_nat k)))
           [0..<nat (sint (svRight array) - sint (svLeft array) + 1)]))"
  using read_loop_copies [OF assms(1), of "svLeft array" array _ "[]"] assms(2)
  by (simp add: read_data_def readable_def)

lemma read_data_copies:
  assumes "svRight array \<noteq> INT_MAX" and "readable array"
  shows "\<exists>buf. read_data array = Some (Inr buf)
     \<and> int (length buf) = max 0 (sint (svRight array) - sint (svLeft array) + 1)
     \<and> (\<forall>i. word_sle (svLeft array) i \<and> word_sle i (svRight array) \<longrightarrow>
          svGetArrElemPtr1 array i = Some (buf ! nat (sint i - sint (svLeft array))))"
proof -
  let ?n = "nat (sint (svRight array) - sint (svLeft array) + 1)"
  let ?buf = "map (\<lambda>k. the (svGetArrElemPtr1 array (svLeft array + of_nat k))) [0..<?n]"
  have "svGetArrElemPtr1 array i = Some (?buf ! nat (sint i - sint (svLeft array)))"
    if "word_sle (svLeft array) i" "word_sle i (svRight array)" for i
  proof -
    from that have b: "sint (svLeft array) \<le> sint i" "sint i \<le> sint (svRight array)"
      by (simp_all add: word_sle_eq)
    then have "nat (sint i - sint (svLeft array)) < ?n" by linarith
    then have "?buf ! nat (sint i - sint (svLeft array)) =
        the (svGetArrElemPtr1 array (svLeft array + of_nat (nat (sint i - sint (svLeft array)))))"
      by simp
    also have "\<dots> = the (svGetArrElemPtr1 array i)"
      using b(1) by (simp only: index_offset)
    finally show ?thesis
      using assms(2) that by (auto simp: readable_def)
  qed
  moreover have "int (length ?buf) = max 0 (sint (svRight array) - sint (svLeft array) + 1)"
    by simp
  ultimately show ?thesis
    using read_data_map [OF assms] by blast
qed

lemma send_udp_packet_returns:
  assumes "svRight array \<noteq> INT_MAX" and "readable array"
  shows "send_udp_packet ip_address port array = Some (Inr 0)"
  by (simp add: send_udp_packet_def read_data_map [OF assms])

lemma readable_array_of: "readable (array_of low high elems)"
  by (simp add: readable_def array_of_def)

text \<open>The scenario of the specification: bounds 0 and 2, bytes 65, 66, 67.\<close>

lemma marshal_scenario:
  "read_data (array_of 0 2 [65, 66, 67]) = Some (Inr [65, 66, 67])
   \<and> send_udp_packet ''10.0.0.1'' 9000 (array_of 0 2 [65, 66, 67]) = Some (Inr 0)"
  by (simp add: send_udp_packet_def read_data_def array_of_def read_loop.simps word_sle_eq)

subsection \<open>The claims\<close>

text \<open>
  C4. For a descriptor whose lower bound exceeds its upper bound, \<^verbatim>\<open>read_data\<close> returns the
  empty buffer and \<^verbatim>\<open>send_udp_packet\<close> returns 0. No element is read: the result is the same
  whatever the element access \<open>f\<close> of the descriptor is, also when every read would fault.
\<close>

theorem empty_range_reads_nothing:
  assumes "word_sless (svRight array) (svLeft array)"
  shows "read_data array = Some (Inr [])
     \<and> read_data (array\<lparr>svGetArrElemPtr1 := f\<rparr>) = Some (Inr [])
     \<and> send_udp_packet ip_address port array = Some (Inr 0)"
  using assms by (simp add: send_udp_packet_def read_data_def read_loop_empty)

theorem empty_range_reads_nothing_witness:
  "word_sless (svRight (array_of 7 0 [1, 2, 3, 4, 5, 6, 7, 8]))
     (svLeft (array_of 7 0 [1, 2, 3, 4, 5, 6, 7, 8]))
   \<and> read_data (array_of 7 0 [1, 2, 3, 4, 5, 6, 7, 8]) = Some (Inr [])
   \<and> read_data ((array_of 7 0 [1, 2, 3, 4, 5, 6, 7, 8])\<lparr>svGetArrElemPtr1 := \<lambda>i. None\<rparr>)
       = Some (Inr [])
   \<and> send_udp_packet ''10.0.0.1'' 9000 (array_of 7 0 [1, 2, 3, 4, 5, 6, 7, 8]) = Some (Inr 0)"
  using empty_range_reads_nothing
    [of "array_of 7 0 [1, 2, 3, 4, 5, 6, 7, 8]" "\<lambda>i. None" "''10.0.0.1''" 9000]
  by (simp add: array_of_def word_sless_alt)

text \<open>
  C2 on an array whose upper bound is \<open>INT_MAX\<close>: the array has the bounds
  \<open>[2147483646, 2147483647]\<close> and the two elements 65 and 66, so the buffer should be
  \<open>[65, 66]\<close>, of length 2. After the element at \<open>INT_MAX\<close> the counter is incremented once more,
  \<^verbatim>\<open>i <= high\<close> still holds, and the loop reads at an index where the array has no element.
\<close>

theorem read_data_upper_bound_INT_MAX:
  "read_data (array_of 2147483646 2147483647 [65, 66]) = Some (Inl Undefined_behaviour)
   \<and> svRight (array_of 2147483646 2147483647 [65, 66]) = INT_MAX
   \<and> max 0 (sint (svRight (array_of 2147483646 2147483647 [65, 66]))
         - sint (svLeft (array_of 2147483646 2147483647 [65, 66])) + 1) = 2"
  by (simp add: read_data_def array_of_def read_loop.simps INT_MAX_def)

text \<open>
  C5 on the same array: \<^verbatim>\<open>send_udp_packet\<close> does not return 0, since \<^verbatim>\<open>read_data\<close> does not
  return.
\<close>

theorem send_udp_packet_upper_bound_INT_MAX:
  "send_udp_packet ''10.0.0.1'' 9000 (array_of 2147483646 2147483647 [65, 66])
     = Some (Inl Undefined_behaviour)"
  by (simp add: send_udp_packet_def read_data_def array_of_def read_loop.simps)

end
